theory Spec2Isabelle
  imports Main
begin

section \<open>The manual-activation registration backend\<close>

text \<open>
  A model of \<^verbatim>\<open>registration/backends/manual/__init__.py\<close>: the class
  \<^verbatim>\<open>ManualActivation\<close> with its six methods. The module is glue code, so what
  matters is which collaborators it calls, with which arguments, in which order, and what
  it returns or raises. Every method is therefore an action on the list of collaborator
  calls made so far: it returns its result (a value, or the exception that left the
  method) together with the extended list.
\<close>

subsection \<open>Python values\<close>

text \<open>
  The values that flow through the module. \<open>PyObj c n\<close> is an instance of class \<open>c\<close>
  (a request, a user, a site, the backend itself), told apart by \<open>n\<close>.
\<close>

datatype pyval =
    PyNone
  | PyBool bool
  | PyInt int
  | PyStr string
  | PyTuple "pyval list"
  | PyDict "(pyval \<times> pyval) list"
  | PyClass string
  | PyFunction string
  | PyModule string
  | PyObj string nat

text \<open>
  Truth value testing, as the \<^verbatim>\<open>if activated:\<close> of \<^verbatim>\<open>activate\<close> does it.
  Instances are true: a model instance such as a user defines neither
  \<^verbatim>\<open>__bool__\<close> nor \<^verbatim>\<open>__len__\<close>.
\<close>

fun truthy :: "pyval \<Rightarrow> bool" where
  "truthy PyNone = False"
| "truthy (PyBool b) = b"
| "truthy (PyInt i) = (i \<noteq> 0)"
| "truthy (PyStr s) = (s \<noteq> [])"
| "truthy (PyTuple xs) = (xs \<noteq> [])"
| "truthy (PyDict kvs) = (kvs \<noteq> [])"
| "truthy (PyClass c) = True"
| "truthy (PyFunction f) = True"
| "truthy (PyModule m) = True"
| "truthy (PyObj c n) = True"

text \<open>\<^verbatim>\<open>x.__class__\<close>: for the backend instance, the class it was made from.\<close>

fun py_class :: "pyval \<Rightarrow> pyval" where
  "py_class PyNone = PyClass ''NoneType''"
| "py_class (PyBool b) = PyClass ''bool''"
| "py_class (PyInt i) = PyClass ''int''"
| "py_class (PyStr s) = PyClass ''str''"
| "py_class (PyTuple xs) = PyClass ''tuple''"
| "py_class (PyDict kvs) = PyClass ''dict''"
| "py_class (PyClass c) = PyClass ''type''"
| "py_class (PyFunction f) = PyClass ''function''"
| "py_class (PyModule m) = PyClass ''module''"
| "py_class (PyObj c n) = PyClass c"

subsection \<open>Exceptions, collaborator calls, actions\<close>

text \<open>
  \<open>KeyError k\<close> is raised by a failed \<^verbatim>\<open>kwargs[k]\<close>, \<open>NameError n\<close> by a reference to
  a global name that is not bound, \<open>TypeError x\<close> by calling an object \<open>x\<close> that is not
  callable; \<open>Raised x\<close> is an exception object \<open>x\<close> raised inside a collaborator.
\<close>

datatype exn = KeyError string | NameError string | TypeError pyval | Raised pyval

text \<open>
  The calls that reach a collaborator:
  \<^item> \<open>GetCurrent\<close>: \<^verbatim>\<open>Site.objects.get_current()\<close>;
  \<^item> \<open>RequestSiteCall request\<close>: \<^verbatim>\<open>RequestSite(request)\<close>;
  \<^item> \<open>CreateInactiveUser username email password site send_email\<close>:
    \<^verbatim>\<open>RegistrationProfile.objects.create_inactive_user(...)\<close>;
  \<^item> \<open>Notify f user\<close>: the callable \<open>f\<close> bound to \<^verbatim>\<open>send_new_user_notification\<close>,
    called with \<open>user\<close>;
  \<^item> \<open>SignalSend name sender user request\<close>:
    \<^verbatim>\<open>signals.<name>.send(sender=..., user=..., request=...)\<close>;
  \<^item> \<open>ActivateUser key\<close>: \<^verbatim>\<open>RegistrationProfile.objects.activate_user(key)\<close>.
\<close>

datatype call =
    GetCurrent
  | RequestSiteCall pyval
  | CreateInactiveUser pyval pyval pyval pyval bool
  | Notify pyval pyval
  | SignalSend string pyval pyval pyval
  | ActivateUser pyval

type_synonym 'a action = "call list \<Rightarrow> (exn + 'a) \<times> call list"

definition succeed :: "'a \<Rightarrow> 'a action" where
  "succeed x = (\<lambda>t. (Inr x, t))"

definition raise_exn :: "exn \<Rightarrow> 'a action" where
  "raise_exn e = (\<lambda>t. (Inl e, t))"

text \<open>Sequencing: an exception of the first action ends the method, as no method catches.\<close>

definition and_then :: "'a action \<Rightarrow> ('a \<Rightarrow> 'b action) \<Rightarrow> 'b action" where
  "and_then m f = (\<lambda>t. case m t of (Inl e, t') \<Rightarrow> (Inl e, t') | (Inr x, t') \<Rightarrow> f x t')"

text \<open>
  A call to a collaborator: the call is made, and its outcome \<open>r\<close>, the value returned
  or the exception raised, is the outcome of the step.
\<close>

definition invoke :: "call \<Rightarrow> exn + 'a \<Rightarrow> 'a action" where
  "invoke c r = (\<lambda>t. (r, t @ [c]))"

text \<open>The calls an action adds to the calls \<open>t\<close> made before it.\<close>

definition new_calls :: "call list \<Rightarrow> 'a action \<Rightarrow> call list" where
  "new_calls t m = drop (length t) (snd (m t))"

subsection \<open>The collaborators\<close>

text \<open>
  What the collaborators do is not part of the module; it is a parameter of the model.
  Each call may return a value or raise an exception.
  \<^item> \<open>site_installed\<close>: \<^verbatim>\<open>Site._meta.installed\<close>;
  \<^item> \<open>site_get_current\<close>: the outcome of \<^verbatim>\<open>Site.objects.get_current()\<close>;
  \<^item> \<open>request_site\<close>: the outcome of \<^verbatim>\<open>RequestSite(request)\<close>;
  \<^item> \<open>create_inactive_user\<close>: the new user, or the exception raised;
  \<^item> \<open>activate_user\<close>: the activated user or a false value, or the exception raised;
  \<^item> \<open>notification f user\<close>: the outcome of calling the callable \<open>f\<close> with \<open>user\<close>;
  \<^item> \<open>defines_call c\<close>: whether class \<open>c\<close> defines \<^verbatim>\<open>__call__\<close>;
  \<^item> \<open>signal_send name sender user request\<close>: the outcome of
    \<^verbatim>\<open>signals.<name>.send(...)\<close>, which raises what a receiver raises;
  \<^item> \<open>settings\<close>: the attributes of \<^verbatim>\<open>django.conf.settings\<close>.
\<close>

record env =
  site_installed :: bool
  site_get_current :: "exn + pyval"
  request_site :: "pyval \<Rightarrow> exn + pyval"
  create_inactive_user :: "pyval \<Rightarrow> pyval \<Rightarrow> pyval \<Rightarrow> pyval \<Rightarrow> bool \<Rightarrow> exn + pyval"
  activate_user :: "pyval \<Rightarrow> exn + pyval"
  notification :: "pyval \<Rightarrow> pyval \<Rightarrow> exn + pyval"
  defines_call :: "string \<Rightarrow> bool"
  signal_send :: "string \<Rightarrow> pyval \<Rightarrow> pyval \<Rightarrow> pyval \<Rightarrow> exn + pyval"
  settings :: "string \<rightharpoonup> pyval"

text \<open>Which objects can be called: functions, classes, and instances with \<^verbatim>\<open>__call__\<close>.\<close>

fun callable :: "env \<Rightarrow> pyval \<Rightarrow> bool" where
  "callable env (PyFunction f) = True"
| "callable env (PyClass c) = True"
| "callable env (PyObj c n) = defines_call env c"
| "callable env v = False"

subsection \<open>The module's global names\<close>

text \<open>
  A global name is looked up in the module's namespace when the statement that mentions it
  runs. \<open>module_globals\<close> is the namespace the file itself builds: the names bound by its
  five import statements and by its class statement. The methods mention two more names,
  \<^verbatim>\<open>send_new_user_notification\<close> (line 53, with the comment
  \<^verbatim>\<open>you would write this function\<close>) and \<^verbatim>\<open>RegistrationAndProfileForm\<close>
  (line 97), which the file binds nowhere. The namespace is a parameter of the two
  methods that mention them, so that a deployment that has added a definition can be
  described too.
\<close>

type_synonym namespace = "string \<rightharpoonup> pyval"

definition module_globals :: namespace where
  "module_globals = map_of
     [(''settings'', PyModule ''django.conf.settings''),
      (''RequestSite'', PyClass ''RequestSite''),
      (''Site'', PyClass ''Site''),
      (''signals'', PyModule ''registration.signals''),
      (''RegistrationForm'', PyClass ''RegistrationForm''),
      (''RegistrationProfile'', PyClass ''RegistrationProfile''),
      (''ManualActivation'', PyClass ''ManualActivation'')]"

definition load_global :: "namespace \<Rightarrow> string \<Rightarrow> pyval action" where
  "load_global g name = (case g name of None \<Rightarrow> raise_exn (NameError name) | Some v \<Rightarrow> succeed v)"

text \<open>\<^verbatim>\<open>kwargs[k]\<close> on the dictionary of keyword arguments.\<close>

definition getitem :: "(string \<rightharpoonup> pyval) \<Rightarrow> string \<Rightarrow> pyval action" where
  "getitem kwargs k = (case kwargs k of None \<Rightarrow> raise_exn (KeyError k) | Some v \<Rightarrow> succeed v)"

subsection \<open>The methods of \<^verbatim>\<open>ManualActivation\<close>\<close>

text \<open>
  Lines 45 to 48 of \<^verbatim>\<open>register\<close>: the site of the new account. An exception of
  the resolver leaves \<^verbatim>\<open>register\<close>.
\<close>

definition resolve_site :: "env \<Rightarrow> pyval \<Rightarrow> pyval action" where
  "resolve_site env request =
     (if site_installed env
      then invoke GetCurrent (site_get_current env)
      else invoke (RequestSiteCall request) (request_site env request))"

text \<open>Lines 49 to 51.\<close>

definition call_create_inactive_user ::
  "env \<Rightarrow> pyval \<Rightarrow> pyval \<Rightarrow> pyval \<Rightarrow> pyval \<Rightarrow> bool \<Rightarrow> pyval action" where
  "call_create_inactive_user env username email password site send_email =
     invoke (CreateInactiveUser username email password site send_email)
       (create_inactive_user env username email password site send_email)"

text \<open>
  Line 53, once the name has been looked up: calling what it is bound to. An object that
  cannot be called gives \<^verbatim>\<open>TypeError\<close>, and nothing has been called.
\<close>

definition call_notifier :: "env \<Rightarrow> pyval \<Rightarrow> pyval \<Rightarrow> pyval action" where
  "call_notifier env f user =
     (if callable env f then invoke (Notify f user) (notification env f user)
      else raise_exn (TypeError f))"

text \<open>Lines 54 to 56 and 72 to 74: \<^verbatim>\<open>signals.<name>.send(sender=, user=, request=)\<close>.\<close>

definition send_signal :: "env \<Rightarrow> string \<Rightarrow> pyval \<Rightarrow> pyval \<Rightarrow> pyval \<Rightarrow> pyval action" where
  "send_signal env name sender user request =
     invoke (SignalSend name sender user request) (signal_send env name sender user request)"

definition register ::
  "env \<Rightarrow> namespace \<Rightarrow> pyval \<Rightarrow> pyval \<Rightarrow> (string \<rightharpoonup> pyval) \<Rightarrow> pyval action" where
  "register env g self request kwargs =
     and_then (getitem kwargs ''username'') (\<lambda>username.
     and_then (getitem kwargs ''email'') (\<lambda>email.
     and_then (getitem kwargs ''password1'') (\<lambda>password.
     and_then (resolve_site env request) (\<lambda>site.
     and_then (call_create_inactive_user env username email password site False) (\<lambda>new_user.
     and_then (load_global g ''send_new_user_notification'') (\<lambda>notify.
     and_then (call_notifier env notify new_user) (\<lambda>_.
     and_then (send_signal env ''user_registered'' (py_class self) new_user request) (\<lambda>_.
     succeed new_user))))))))"

definition call_activate_user :: "env \<Rightarrow> pyval \<Rightarrow> pyval action" where
  "call_activate_user env activation_key =
     invoke (ActivateUser activation_key) (activate_user env activation_key)"

definition activate :: "env \<Rightarrow> pyval \<Rightarrow> pyval \<Rightarrow> pyval \<Rightarrow> pyval action" where
  "activate env self request activation_key =
     and_then (call_activate_user env activation_key) (\<lambda>activated.
     and_then (if truthy activated
               then send_signal env ''user_activated'' (py_class self) activated request
               else succeed PyNone) (\<lambda>_.
     succeed activated))"

text \<open>\<^verbatim>\<open>getattr(settings, 'VENDOR_REGISTRATION_OPEN', True)\<close>.\<close>

definition registration_allowed :: "env \<Rightarrow> pyval \<Rightarrow> pyval \<Rightarrow> pyval action" where
  "registration_allowed env self request =
     succeed (case settings env ''VENDOR_REGISTRATION_OPEN'' of
                None \<Rightarrow> PyBool True
              | Some v \<Rightarrow> v)"

definition get_form_class :: "namespace \<Rightarrow> pyval \<Rightarrow> pyval \<Rightarrow> pyval action" where
  "get_form_class g self request = load_global g ''RegistrationAndProfileForm''"

definition post_registration_redirect :: "pyval \<Rightarrow> pyval \<Rightarrow> pyval \<Rightarrow> pyval action" where
  "post_registration_redirect self request user =
     succeed (PyTuple [PyStr ''registration_complete'', PyTuple [], PyDict []])"

definition post_activation_redirect :: "pyval \<Rightarrow> pyval \<Rightarrow> pyval \<Rightarrow> pyval action" where
  "post_activation_redirect self request user =
     succeed (PyTuple [PyStr ''registration_actication_complete'', PyTuple [], PyDict []])"

subsection \<open>Reading a list of calls\<close>

text \<open>The users the notification was called with.\<close>

fun notified :: "call list \<Rightarrow> pyval list" where
  "notified [] = []"
| "notified (Notify f u # cs) = u # notified cs"
| "notified (c # cs) = notified cs"

text \<open>The signals sent: name, sender, user, request.\<close>

fun published :: "call list \<Rightarrow> (string \<times> pyval \<times> pyval \<times> pyval) list" where
  "published [] = []"
| "published (SignalSend n s u r # cs) = (n, s, u, r) # published cs"
| "published (c # cs) = published cs"

text \<open>The accounts asked for: username, email, password, site, send_email.\<close>

fun created :: "call list \<Rightarrow> (pyval \<times> pyval \<times> pyval \<times> pyval \<times> bool) list" where
  "created [] = []"
| "created (CreateInactiveUser n e p s m # cs) = (n, e, p, s, m) # created cs"
| "created (c # cs) = created cs"

subsection \<open>Concrete collaborators and inputs\<close>

definition the_backend :: pyval where
  "the_backend = PyObj ''ManualActivation'' 0"

definition a_request :: pyval where
  "a_request = PyObj ''HttpRequest'' 1"

definition alice :: pyval where
  "alice = PyObj ''User'' 7"

definition main_site :: pyval where
  "main_site = PyObj ''Site'' 1"

text \<open>
  A directory in which the name \<^verbatim>\<open>bob\<close> is taken, every other creation yields
  \<open>alice\<close>, and the only activation key is \<^verbatim>\<open>k1\<close>. The resolvers, the
  notification and the signals return.
\<close>

definition directory :: env where
  "directory = \<lparr>
     site_installed = True,
     site_get_current = Inr main_site,
     request_site = (\<lambda>r. Inr (PyObj ''RequestSite'' 2)),
     create_inactive_user = (\<lambda>n e p s m.
        if n = PyStr ''bob'' then Inl (Raised (PyObj ''IntegrityError'' 3)) else Inr alice),
     activate_user = (\<lambda>k. if k = PyStr ''k1'' then Inr alice else Inr (PyBool False)),
     notification = (\<lambda>f u. Inr PyNone),
     defines_call = (\<lambda>c. False),
     signal_send = (\<lambda>n s u r. Inr (PyTuple [])),
     settings = Map.empty \<rparr>"


definition form_data :: "string \<rightharpoonup> pyval" where
  "form_data = map_of
     [(''username'', PyStr ''alice''),
      (''email'', PyStr ''alice@example.org''),
      (''password1'', PyStr ''s3cret''),
      (''password2'', PyStr ''s3cret'')]"

section \<open>Properties\<close>

lemmas action_defs = succeed_def raise_exn_def and_then_def invoke_def new_calls_def
  load_global_def getitem_def resolve_site_def call_create_inactive_user_def
  call_activate_user_def call_notifier_def send_signal_def

text \<open>
  C9. \<^verbatim>\<open>post_registration_redirect\<close> and \<^verbatim>\<open>post_activation_redirect\<close> each
  return a fixed route name with an empty tuple of positional arguments and an empty
  dictionary of keyword arguments, call no collaborator, and return the same for every
  backend instance, request and user.
\<close>

theorem redirects_fixed:
  "post_registration_redirect self request user t =
     (Inr (PyTuple [PyStr ''registration_complete'', PyTuple [], PyDict []]), t)
   \<and> post_activation_redirect self request user t =
     (Inr (PyTuple [PyStr ''registration_actication_complete'', PyTuple [], PyDict []]), t)
   \<and> post_registration_redirect self request user =
       post_registration_redirect self' request' user'
   \<and> post_activation_redirect self request user =
       post_activation_redirect self' request' user'"
  by (simp add: post_registration_redirect_def post_activation_redirect_def succeed_def)

subsection \<open>\<^verbatim>\<open>activate\<close>\<close>



text \<open>
  C4. \<^verbatim>\<open>activate\<close> sends the signal \<^verbatim>\<open>user_activated\<close> once, with the class
  of the backend as sender, the activated user and the request, when
  \<^verbatim>\<open>activate_user\<close> returns a true value; it sends no signal when the value is
  false, nor when \<^verbatim>\<open>activate_user\<close> raises. The signal counts as sent when
  \<^verbatim>\<open>send\<close> has been called, whatever its receivers do.
\<close>

theorem activate_publishes_iff_truthy:
  "published (new_calls t (activate env self request activation_key)) =
     (case activate_user env activation_key of
        Inl e \<Rightarrow> []
      | Inr activated \<Rightarrow>
          if truthy activated
          then [(''user_activated'', py_class self, activated, request)]
          else [])"
proof (cases "activate_user env activation_key")
  case (Inl e)
  then show ?thesis by (simp add: activate_def action_defs)
next
  case (Inr activated)
  then show ?thesis
    by (cases "signal_send env ''user_activated'' (py_class self) activated request")
       (simp_all add: activate_def action_defs)
qed

subsection \<open>\<^verbatim>\<open>registration_allowed\<close> and \<^verbatim>\<open>get_form_class\<close>\<close>

text \<open>
  C2, as the claim states it, fails: with \<^verbatim>\<open>REGISTRATION_OPEN = False\<close> in the
  settings and nothing else, \<^verbatim>\<open>registration_allowed\<close> returns \<^verbatim>\<open>True\<close>. The
  method reads the setting \<^verbatim>\<open>VENDOR_REGISTRATION_OPEN\<close>.
\<close>

theorem registration_open_ignored:
  "registration_allowed
     (directory\<lparr>settings := [''REGISTRATION_OPEN'' \<mapsto> PyBool False]\<rparr>)
     the_backend a_request [] = (Inr (PyBool True), [])"
  by (simp add: registration_allowed_def succeed_def)

text \<open>
  C2, amended. \<^verbatim>\<open>registration_allowed\<close> returns true when the setting
  \<^verbatim>\<open>VENDOR_REGISTRATION_OPEN\<close> is absent, true when it is set to true and false
  when it is set to false; the setting \<^verbatim>\<open>REGISTRATION_OPEN\<close> has no influence on
  the result; no collaborator is called.
\<close>

theorem registration_allowed_vendor_flag:
  "registration_allowed (env\<lparr>settings := s(''VENDOR_REGISTRATION_OPEN'' := None)\<rparr>)
     self request t = (Inr (PyBool True), t)
   \<and> registration_allowed (env\<lparr>settings := s(''VENDOR_REGISTRATION_OPEN'' \<mapsto> PyBool True)\<rparr>)
     self request t = (Inr (PyBool True), t)
   \<and> registration_allowed (env\<lparr>settings := s(''VENDOR_REGISTRATION_OPEN'' \<mapsto> PyBool False)\<rparr>)
     self request t = (Inr (PyBool False), t)
   \<and> registration_allowed (env\<lparr>settings := (settings env)(''REGISTRATION_OPEN'' := x)\<rparr>)
     self request t = registration_allowed env self request t"
  by (simp add: registration_allowed_def succeed_def)

text \<open>
  C3. In the module as it is written, \<^verbatim>\<open>get_form_class\<close> returns no form class:
  the name \<^verbatim>\<open>RegistrationAndProfileForm\<close> is not among the names the module binds
  (it imports \<^verbatim>\<open>RegistrationForm\<close>), so the method raises \<^verbatim>\<open>NameError\<close>, for
  every backend instance and request.
\<close>

theorem get_form_class_name_error:
  "get_form_class module_globals self request t =
     (Inl (NameError ''RegistrationAndProfileForm''), t)"
  by (simp add: get_form_class_def load_global_def raise_exn_def module_globals_def)

subsection \<open>\<^verbatim>\<open>register\<close>\<close>

lemma register_key_error:
  assumes "kwargs ''username'' = None \<or> kwargs ''email'' = None \<or> kwargs ''password1'' = None"
  shows "register env g self request kwargs t =
           (Inl (KeyError (if kwargs ''username'' = None then ''username''
                           else if kwargs ''email'' = None then ''email''
                           else ''password1'')), t)"
  using assms
  by (auto simp add: register_def getitem_def and_then_def raise_exn_def succeed_def)

lemma register_calls:
  assumes "kwargs ''username'' = Some username"
    and "kwargs ''email'' = Some email"
    and "kwargs ''password1'' = Some password"
  shows "register env g self request kwargs =
     and_then (resolve_site env request) (\<lambda>site.
     and_then (call_create_inactive_user env username email password site False) (\<lambda>new_user.
     and_then (load_global g ''send_new_user_notification'') (\<lambda>notify.
     and_then (call_notifier env notify new_user) (\<lambda>_.
     and_then (send_signal env ''user_registered'' (py_class self) new_user request) (\<lambda>_.
     succeed new_user)))))"
  using assms by (simp add: register_def getitem_def and_then_def succeed_def)

lemma register_no_site:
  assumes "kwargs ''username'' = Some username"
    and "kwargs ''email'' = Some email"
    and "kwargs ''password1'' = Some password"
    and "(if site_installed env then site_get_current env else request_site env request) = Inl e"
  shows "register env g self request kwargs t =
           (Inl e, t @ [if site_installed env then GetCurrent else RequestSiteCall request])"
  using assms(4)
  by (simp add: register_calls [OF assms(1-3)] resolve_site_def and_then_def invoke_def
        split: if_splits)

lemma register_after_site:
  assumes "kwargs ''username'' = Some username"
    and "kwargs ''email'' = Some email"
    and "kwargs ''password1'' = Some password"
    and "(if site_installed env then site_get_current env else request_site env request) =
           Inr site"
  shows "\<exists>r cs. register env g self request kwargs t =
           (r, t @ [if site_installed env then GetCurrent else RequestSiteCall request,
                    CreateInactiveUser username email password site False] @ cs)
         \<and> created cs = []"
proof (cases "create_inactive_user env username email password site False")
  case (Inl e)
  with assms(4) show ?thesis
    by (simp add: register_calls [OF assms(1-3)] action_defs split: if_splits)
next
  case created_user: (Inr new_user)
  show ?thesis
  proof (cases "g ''send_new_user_notification''")
    case None
    with assms(4) created_user show ?thesis
      by (simp add: register_calls [OF assms(1-3)] action_defs split: if_splits)
  next
    case (Some f)
    show ?thesis
    proof (cases "callable env f")
      case False
      with assms(4) created_user Some show ?thesis
        by (simp add: register_calls [OF assms(1-3)] action_defs split: if_splits)
    next
      case True
      show ?thesis
      proof (cases "notification env f new_user")
        case (Inl e)
        with assms(4) created_user Some True show ?thesis
          by (simp add: register_calls [OF assms(1-3)] action_defs split: if_splits)
      next
        case (Inr r)
        with assms(4) created_user Some True show ?thesis
          by (cases "signal_send env ''user_registered'' (py_class self) new_user request")
             (simp_all add: register_calls [OF assms(1-3)] action_defs split: if_splits)
      qed
    qed
  qed
qed

lemma created_site_call [simp]:
  "created ((if b then GetCurrent else RequestSiteCall request) # cs) = created cs"
  by simp

text \<open>
  C10. \<^verbatim>\<open>register\<close> reads the keyword arguments \<^verbatim>\<open>username\<close>,
  \<^verbatim>\<open>email\<close> and \<^verbatim>\<open>password1\<close>, in this order. When one of them is missing it
  raises \<^verbatim>\<open>KeyError\<close> for the first missing one, and no collaborator has been
  called.
\<close>

theorem register_missing_key:
  assumes "kwargs ''username'' = None \<or> kwargs ''email'' = None \<or> kwargs ''password1'' = None"
  shows "register env g self request kwargs t =
           (Inl (KeyError (if kwargs ''username'' = None then ''username''
                           else if kwargs ''email'' = None then ''email''
                           else ''password1'')), t)"
  using assms by (auto simp add: register_def action_defs)

text \<open>
  A call with \<^verbatim>\<open>username\<close>, \<^verbatim>\<open>email\<close> and \<^verbatim>\<open>password\<close>, but no
  \<^verbatim>\<open>password1\<close>.
\<close>

theorem register_missing_key_witness:
  "register directory module_globals the_backend a_request
     [''username'' \<mapsto> PyStr ''alice'', ''email'' \<mapsto> PyStr ''alice@example.org'',
      ''password'' \<mapsto> PyStr ''s3cret''] [] =
   (Inl (KeyError ''password1''), [])"
  using register_missing_key
    [of "[''username'' \<mapsto> PyStr ''alice'', ''email'' \<mapsto> PyStr ''alice@example.org'',
          ''password'' \<mapsto> PyStr ''s3cret'']"
        directory module_globals the_backend a_request "[]"]
  by simp

text \<open>
  C7. Whatever the call, \<^verbatim>\<open>register\<close> asks the directory for at most one account,
  and never with \<^verbatim>\<open>send_email\<close> true: when the three keyword arguments are there
  and the resolution of the site returns, it makes the one call
  \<^verbatim>\<open>create_inactive_user\<close> with their values, the resolved site and
  \<^verbatim>\<open>send_email=False\<close>; when a keyword argument is missing or the resolver
  raises, it makes none.
\<close>

theorem register_suppresses_activation_email:
  "created (new_calls t (register env g self request kwargs)) =
     (case (kwargs ''username'', kwargs ''email'', kwargs ''password1'',
            if site_installed env then site_get_current env else request_site env request) of
        (Some username, Some email, Some password, Inr site) \<Rightarrow>
          [(username, email, password, site, False)]
      | _ \<Rightarrow> [])
   \<and> filter (\<lambda>(username, email, password, site, send_email). send_email)
        (created (new_calls t (register env g self request kwargs))) = []"
proof (cases "kwargs ''username'' = None \<or> kwargs ''email'' = None \<or> kwargs ''password1'' = None")
  case True
  then have "register env g self request kwargs t =
      (Inl (KeyError (if kwargs ''username'' = None then ''username''
                      else if kwargs ''email'' = None then ''email''
                      else ''password1'')), t)"
    by (rule register_key_error)
  then have "new_calls t (register env g self request kwargs) = []"
    by (simp add: new_calls_def)
  with True show ?thesis
    by (auto split: option.splits)
next
  case False
  then obtain username email password where
    kw: "kwargs ''username'' = Some username" "kwargs ''email'' = Some email"
        "kwargs ''password1'' = Some password"
    by auto
  show ?thesis
  proof (cases "if site_installed env then site_get_current env else request_site env request")
    case (Inl e)
    from register_no_site [OF kw Inl, of g self t]
    have "new_calls t (register env g self request kwargs) =
            [if site_installed env then GetCurrent else RequestSiteCall request]"
      by (simp add: new_calls_def)
    with kw Inl show ?thesis by simp
  next
    case (Inr site)
    from register_after_site [OF kw Inr, of g self t]
    obtain r cs where
      "register env g self request kwargs t =
         (r, t @ [if site_installed env then GetCurrent else RequestSiteCall request,
                  CreateInactiveUser username email password site False] @ cs)"
      and "created cs = []"
      by blast
    then have "created (new_calls t (register env g self request kwargs)) =
                 [(username, email, password, site, False)]"
      by (simp add: new_calls_def)
    with kw Inr show ?thesis by simp
  qed
qed

text \<open>
  C8. When the three keyword arguments are there, \<^verbatim>\<open>register\<close> first resolves the
  site: if \<^verbatim>\<open>Site._meta.installed\<close> holds, it calls
  \<^verbatim>\<open>Site.objects.get_current()\<close>, otherwise \<^verbatim>\<open>RequestSite(request)\<close>. When
  the resolver returns, the site it returned is the one passed to
  \<^verbatim>\<open>create_inactive_user\<close>, which is the next call; when the resolver raises, no
  call follows.
\<close>

theorem register_site_resolution:
  assumes "kwargs ''username'' = Some username"
    and "kwargs ''email'' = Some email"
    and "kwargs ''password1'' = Some password"
  shows "take 2 (new_calls t (register env g self request kwargs)) =
           (if site_installed env
            then (case site_get_current env of
                    Inr site \<Rightarrow>
                      [GetCurrent, CreateInactiveUser username email password site False]
                  | Inl e \<Rightarrow> [GetCurrent])
            else (case request_site env request of
                    Inr site \<Rightarrow>
                      [RequestSiteCall request,
                       CreateInactiveUser username email password site False]
                  | Inl e \<Rightarrow> [RequestSiteCall request]))"
proof (cases "if site_installed env then site_get_current env else request_site env request")
  case (Inl e)
  from register_no_site [OF assms Inl, of g self t]
  have "new_calls t (register env g self request kwargs) =
          [if site_installed env then GetCurrent else RequestSiteCall request]"
    by (simp add: new_calls_def)
  with Inl show ?thesis by (simp split: if_splits)
next
  case (Inr site)
  from register_after_site [OF assms Inr, of g self t]
  obtain r cs where
    "register env g self request kwargs t =
       (r, t @ [if site_installed env then GetCurrent else RequestSiteCall request,
                CreateInactiveUser username email password site False] @ cs)"
    by blast
  then have "take 2 (new_calls t (register env g self request kwargs)) =
               [if site_installed env then GetCurrent else RequestSiteCall request,
                CreateInactiveUser username email password site False]"
    by (simp add: new_calls_def)
  with Inr show ?thesis by (simp split: if_splits)
qed

theorem register_site_resolution_witness:
  "take 2 (new_calls [] (register directory module_globals the_backend a_request form_data)) =
     [GetCurrent,
      CreateInactiveUser (PyStr ''alice'') (PyStr ''alice@example.org'') (PyStr ''s3cret'')
        main_site False]
   \<and> take 2 (new_calls []
       (register (directory\<lparr>site_installed := False\<rparr>) module_globals the_backend a_request
          form_data)) =
     [RequestSiteCall a_request,
      CreateInactiveUser (PyStr ''alice'') (PyStr ''alice@example.org'') (PyStr ''s3cret'')
        (PyObj ''RequestSite'' 2) False]
   \<and> take 2 (new_calls []
       (register (directory\<lparr>site_get_current := Inl (Raised (PyObj ''DoesNotExist'' 6))\<rparr>)
          module_globals the_backend a_request form_data)) =
     [GetCurrent]"
  using register_site_resolution
    [of form_data "PyStr ''alice''" "PyStr ''alice@example.org''" "PyStr ''s3cret''"
        "[]" directory module_globals the_backend a_request]
    register_site_resolution
    [of form_data "PyStr ''alice''" "PyStr ''alice@example.org''" "PyStr ''s3cret''"
        "[]" "directory\<lparr>site_installed := False\<rparr>" module_globals the_backend a_request]
    register_site_resolution
    [of form_data "PyStr ''alice''" "PyStr ''alice@example.org''" "PyStr ''s3cret''"
        "[]" "directory\<lparr>site_get_current := Inl (Raised (PyObj ''DoesNotExist'' 6))\<rparr>"
        module_globals the_backend a_request]
  by (simp add: form_data_def directory_def)

text \<open>
  C6. When \<^verbatim>\<open>create_inactive_user\<close>, called with the resolved site, raises,
  \<^verbatim>\<open>register\<close> raises the same exception; the calls it has made are the
  resolution of the site and \<^verbatim>\<open>create_inactive_user\<close> itself, so that nobody is
  notified and no signal is sent.
\<close>

theorem register_propagates_creation_error:
  assumes "kwargs ''username'' = Some username"
    and "kwargs ''email'' = Some email"
    and "kwargs ''password1'' = Some password"
    and "(if site_installed env then site_get_current env else request_site env request) =
           Inr site"
    and "create_inactive_user env username email password site False = Inl e"
  shows "fst (register env g self request kwargs t) = Inl e
         \<and> notified (new_calls t (register env g self request kwargs)) = []
         \<and> published (new_calls t (register env g self request kwargs)) = []
         \<and> length (new_calls t (register env g self request kwargs)) = 2"
  using assms(4,5)
  by (simp add: register_calls [OF assms(1-3)] action_defs split: if_splits)

theorem register_propagates_creation_error_witness:
  "fst (register directory module_globals the_backend a_request
          (form_data(''username'' \<mapsto> PyStr ''bob'')) []) =
     Inl (Raised (PyObj ''IntegrityError'' 3))
   \<and> notified (new_calls [] (register directory module_globals the_backend a_request
          (form_data(''username'' \<mapsto> PyStr ''bob'')))) = []
   \<and> published (new_calls [] (register directory module_globals the_backend a_request
          (form_data(''username'' \<mapsto> PyStr ''bob'')))) = []
   \<and> length (new_calls [] (register directory module_globals the_backend a_request
          (form_data(''username'' \<mapsto> PyStr ''bob'')))) = 2"
  using register_propagates_creation_error
    [of "form_data(''username'' \<mapsto> PyStr ''bob'')" "PyStr ''bob''"
        "PyStr ''alice@example.org''" "PyStr ''s3cret''" directory a_request main_site
        "Raised (PyObj ''IntegrityError'' 3)" module_globals the_backend "[]"]
  by (simp add: form_data_def directory_def)

text \<open>
  The module as it is written binds the name \<^verbatim>\<open>send_new_user_notification\<close>
  nowhere: with all three inputs there and the account created, \<^verbatim>\<open>register\<close>
  raises \<^verbatim>\<open>NameError\<close> at line 53.
\<close>

lemma register_notifier_unbound:
  "register directory module_globals the_backend a_request form_data [] =
     (Inl (NameError ''send_new_user_notification''),
      [GetCurrent,
       CreateInactiveUser (PyStr ''alice'') (PyStr ''alice@example.org'') (PyStr ''s3cret'')
         main_site False])"
  by (simp add: register_def action_defs module_globals_def form_data_def directory_def)




end
